theory Spec2Isabelle
  imports Main "HOL-Library.Word"
begin

section \<open>The navigation sensor drivers of pxt-ev3-navigation\<close>

text \<open>
  The repository holds three versions of the class \<open>NavigationSensor\<close>:
  \<^item> the five-lidar driver of \<open>main.ts\<close> (modes RANGE and HEADING), suffix \<open>_main\<close>;
  \<^item> the dual-lidar driver at the head of \<open>navigation-sensor.ts\<close> (modes NAV1 and NAV2,
    events for the left and the right side), suffix \<open>_dual\<close>;
  \<^item> the single-threshold driver in the second half of \<open>navigation-sensor.ts\<close>
    (the dual-lidar accessors with the update and threshold methods of \<open>main.ts\<close>),
    suffix \<open>_single\<close>.
  All three extend the host class \<open>internal.UartSensor\<close> and own a
  \<open>sensors.ThresholdDetector\<close>; both classes belong to the host library and are not
  part of the sources. JavaScript numbers are modelled as \<open>int\<close>: every value the
  drivers read is a 16-bit integer.
\<close>

subsection \<open>Host library: errors, threshold detector, codec\<close>

type_synonym byte = "8 word"

datatype error = TransportError | OutOfRange | InvalidThreshold | NotConnected

datatype ThresholdState = Normal | High | Low

text \<open>
  Modelled from the spec: the enum \<open>sensors.ThresholdState\<close> is declared in the host
  library. The spec names its three states; their numeric codes are the ones recorded in
  the comment of \<open>navigation-sensor.ts\<close>, line 13 (Normal=1, High=2, Low=3).
\<close>

fun ThresholdState_code :: "ThresholdState \<Rightarrow> int" where
  "ThresholdState_code Normal = 1"
| "ThresholdState_code High = 2"
| "ThresholdState_code Low = 3"

text \<open>
  Modelled from the spec: the class \<open>sensors.ThresholdDetector\<close> is missing from the
  sources. Section 3 gives its fields (\<open>min\<close>, \<open>max\<close>, \<open>lowThreshold\<close>,
  \<open>highThreshold\<close> and the current level, one of Normal, High, Low), here with the
  source id handed to its constructor.
\<close>

record ThresholdDetector =
  id_d :: int
  min_d :: int
  max_d :: int
  lowThreshold :: int
  highThreshold :: int
  level :: ThresholdState

text \<open>
  Modelled from the spec: the constructor of \<open>sensors.ThresholdDetector\<close>, called as
  \<open>new ThresholdDetector(id, min, max, lowThreshold, highThreshold)\<close>; section 4.3 makes
  Normal the initial state.
\<close>

definition ThresholdDetector_new :: "int \<Rightarrow> int \<Rightarrow> int \<Rightarrow> int \<Rightarrow> int \<Rightarrow> ThresholdDetector" where
  "ThresholdDetector_new ident mn mx lo hi =
     \<lparr>id_d = ident, min_d = mn, max_d = mx, lowThreshold = lo, highThreshold = hi,
      level = Normal\<rparr>"

text \<open>
  Modelled from the spec: \<open>ThresholdDetector.setLevel\<close>, missing from the sources.
  Section 4.3: a value at most \<open>lowThreshold\<close> gives Low, a value at least
  \<open>highThreshold\<close> gives High, any other value Normal; when the state differs from the
  one of the previous call a level change is signalled. The result is the updated
  detector and the signalled state, if any.
\<close>

definition setLevel :: "int \<Rightarrow> ThresholdDetector \<Rightarrow> ThresholdDetector \<times> ThresholdState option" where
  "setLevel v d =
     (let st = (if v \<le> lowThreshold d then Low
                else if v \<ge> highThreshold d then High
                else Normal)
      in (d\<lparr>level := st\<rparr>, if st = level d then None else Some st))"

text \<open>
  Modelled from the spec: \<open>ThresholdDetector.threshold\<close>, missing from the sources.
  Section 4.3: Low gives \<open>lowThreshold\<close>, High gives \<open>highThreshold\<close>; the spec says
  nothing about Normal, which is left without an equation.
\<close>

fun threshold :: "ThresholdState \<Rightarrow> ThresholdDetector \<Rightarrow> int" where
  "threshold Low d = lowThreshold d"
| "threshold High d = highThreshold d"

text \<open>
  Modelled from the spec: \<open>ThresholdDetector.setLowThreshold\<close>, missing from the
  sources. Sections 3, 4.3 and 7: the ordering invariant is
  \<open>min \<le> lowThreshold \<le> highThreshold \<le> max\<close>; a value that would break it is rejected
  with \<open>InvalidThreshold\<close> and the prior state is retained.
\<close>

definition setLowThreshold :: "int \<Rightarrow> ThresholdDetector \<Rightarrow> error + ThresholdDetector" where
  "setLowThreshold v d =
     (if min_d d \<le> v \<and> v \<le> highThreshold d then Inr (d\<lparr>lowThreshold := v\<rparr>)
      else Inl InvalidThreshold)"

text \<open>The little-endian value of a run of bytes, least significant byte first.\<close>

fun le_value :: "byte list \<Rightarrow> int" where
  "le_value [] = 0"
| "le_value (b # bs) = uint b + 256 * le_value bs"

text \<open>
  Modelled from the spec: the register codec (the host's \<open>Buffer.getNumber\<close>), missing
  from the sources. Section 4.1: \<open>decode(buffer, offset, width, signed)\<close> reads
  \<open>width\<close> bytes from \<open>offset\<close> in little-endian order, as two's complement when
  \<open>signed\<close> and unsigned otherwise, and fails with \<open>OutOfRange\<close> when
  \<open>offset + width\<close> exceeds the buffer length.
\<close>

definition decode :: "byte list \<Rightarrow> nat \<Rightarrow> nat \<Rightarrow> bool \<Rightarrow> error + int" where
  "decode buffer offset width is_signed =
     (if offset + width > length buffer then Inl OutOfRange
      else (let u = le_value (take width (drop offset buffer))
            in Inr (if is_signed \<and> 2 ^ (8 * width - 1) \<le> u
                    then u - 2 ^ (8 * width) else u)))"

datatype NumberFormat = UInt16LE | Int16LE

fun NumberFormat_width :: "NumberFormat \<Rightarrow> nat" where
  "NumberFormat_width UInt16LE = 2"
| "NumberFormat_width Int16LE = 2"

fun NumberFormat_signed :: "NumberFormat \<Rightarrow> bool" where
  "NumberFormat_signed UInt16LE = False"
| "NumberFormat_signed Int16LE = True"

subsection \<open>Enumerations of the drivers\<close>

text \<open>\<open>NavigationSensorEvent\<close> of the dual-lidar driver (\<open>navigation-sensor.ts\<close>, lines 5-14).\<close>

datatype NavigationSensorEvent = ObjectDetected | ObjectNearLeft | ObjectNearRight | ObjectNear

fun NavigationSensorEvent_code :: "NavigationSensorEvent \<Rightarrow> int" where
  "NavigationSensorEvent_code ObjectDetected = 10"
| "NavigationSensorEvent_code ObjectNearLeft = 4"
| "NavigationSensorEvent_code ObjectNearRight = 5"
| "NavigationSensorEvent_code ObjectNear = ThresholdState_code Low"

text \<open>
  \<open>NavigationSensorEvent\<close> of the five-lidar driver (\<open>main.ts\<close>, lines 8-13); the
  single-threshold driver declares the same two members with the same values.
\<close>

datatype NavigationSensorEvent_main = ObjectDetected_main | ObjectNear_main

fun NavigationSensorEvent_main_code :: "NavigationSensorEvent_main \<Rightarrow> int" where
  "NavigationSensorEvent_main_code ObjectDetected_main = 10"
| "NavigationSensorEvent_main_code ObjectNear_main = ThresholdState_code Low"

text \<open>
  \<open>NavigationSensorMode\<close>: a \<open>const enum\<close>, so a mode is its number. \<open>main.ts\<close> names
  the modes RANGE and HEADING, \<open>navigation-sensor.ts\<close> names them NAV1 and NAV2.
\<close>

definition None_mode :: int where "None_mode = -1"
definition RANGE :: int where "RANGE = 0"
definition HEADING :: int where "HEADING = 1"
definition NAV1 :: int where "NAV1 = 0"
definition NAV2 :: int where "NAV2 = 1"

subsection \<open>Driver state and effects\<close>

text \<open>
  What a driver does to the outside: a mode-switch command sent to the device, an event
  raised with \<open>control.raiseEvent(source, code)\<close>, and the level-change signal of the
  threshold detector.
\<close>

datatype effect =
    ModeSwitch int
  | RaiseEvent int int
  | LevelChange int ThresholdState

text \<open>
  The fields of \<open>NavigationSensor\<close> (\<open>promixityThreshold\<close> is the source's spelling),
  the source id and current mode kept by the base class, the device (the buffer it
  exposes in each mode), and the effects so far, oldest first.
\<close>

record NavigationSensor =
  sensor_id :: int
  promixityThreshold :: ThresholdDetector
  movementThreshold :: int
  currentMode :: int
  device :: "int \<Rightarrow> byte list"
  trace :: "effect list"

text \<open>
  Modelled from the spec: \<open>UartSensor._setMode\<close>, missing from the sources. Section 4.2
  (\<open>ensureMode\<close>): when the requested mode differs from \<open>currentMode\<close>, a mode-switch
  command is issued and \<open>currentMode\<close> becomes the requested mode; otherwise nothing
  happens.
\<close>

definition setMode :: "int \<Rightarrow> NavigationSensor \<Rightarrow> NavigationSensor" where
  "setMode requested s =
     (if requested \<noteq> currentMode s
      then s\<lparr>currentMode := requested, trace := trace s @ [ModeSwitch requested]\<rparr>
      else s)"

text \<open>
  Modelled from the spec: \<open>UartSensor.getNumber\<close>, missing from the sources. Sections 3
  and 6: the transport read returns the buffer of the currently active mode, which the
  codec decodes at the given offset.
\<close>

definition getNumber :: "NumberFormat \<Rightarrow> nat \<Rightarrow> NavigationSensor \<Rightarrow> error + int" where
  "getNumber fmt offset s =
     decode (device s (currentMode s)) offset (NumberFormat_width fmt) (NumberFormat_signed fmt)"

text \<open>
  Modelled from the spec: \<open>control.raiseEvent\<close>, missing from the sources. Section 6:
  \<open>raiseEvent(sourceId, eventCode)\<close> hands the event to the event bus, which is recorded
  here.
\<close>

definition raiseEvent :: "int \<Rightarrow> int \<Rightarrow> NavigationSensor \<Rightarrow> NavigationSensor" where
  "raiseEvent src code s = s\<lparr>trace := trace s @ [RaiseEvent src code]\<rparr>"

text \<open>The level-change signal of the detector with source id \<open>i\<close>, as effects.\<close>

fun level_signal :: "int \<Rightarrow> ThresholdState option \<Rightarrow> effect list" where
  "level_signal i None = []"
| "level_signal i (Some st) = [LevelChange i st]"

text \<open>
  The statement \<open>this.promixityThreshold.setLevel(curr)\<close>: the detector is updated in
  place and its level-change signal, if any, goes out.
\<close>

definition promixity_setLevel :: "int \<Rightarrow> NavigationSensor \<Rightarrow> NavigationSensor" where
  "promixity_setLevel cur s =
     (case setLevel cur (promixityThreshold s) of
        (d, sig) \<Rightarrow> s\<lparr>promixityThreshold := d, trace := trace s @ level_signal (id_d d) sig\<rparr>)"

text \<open>
  Modelled from the spec: the constructor of \<open>UartSensor\<close>, missing from the sources,
  with the fields of the subclass filled in. The source id assigned by the base class is
  the parameter \<open>ident\<close>; by section 4.2 \<open>currentMode\<close> is initially unset.
\<close>

definition UartSensor_new ::
  "int \<Rightarrow> (int \<Rightarrow> byte list) \<Rightarrow> ThresholdDetector \<Rightarrow> int \<Rightarrow> NavigationSensor" where
  "UartSensor_new ident dev d mt =
     \<lparr>sensor_id = ident, promixityThreshold = d, movementThreshold = mt,
      currentMode = None_mode, device = dev, trace = []\<rparr>"

subsection \<open>The five-lidar driver (\<open>main.ts\<close>)\<close>

definition NavigationSensor_main :: "int \<Rightarrow> (int \<Rightarrow> byte list) \<Rightarrow> NavigationSensor" where
  "NavigationSensor_main ident dev =
     setMode HEADING (UartSensor_new ident dev (ThresholdDetector_new ident 0 255 10 100) 1)"

definition query_main :: "NavigationSensor \<Rightarrow> (error + int) \<times> NavigationSensor" where
  "query_main s = (getNumber Int16LE 0 s, s)"

definition update_main :: "int \<Rightarrow> int \<Rightarrow> NavigationSensor \<Rightarrow> NavigationSensor" where
  "update_main prev cur s =
     (let s1 = promixity_setLevel cur s
      in if \<bar>prev - cur\<bar> > movementThreshold s1
         then raiseEvent (sensor_id s1) (NavigationSensorEvent_main_code ObjectDetected_main) s1
         else s1)"

definition distanceFrontLeft :: "NavigationSensor \<Rightarrow> (error + int) \<times> NavigationSensor" where
  "distanceFrontLeft s = (let s1 = setMode RANGE s in (getNumber UInt16LE 0 s1, s1))"

definition distanceFrontRight :: "NavigationSensor \<Rightarrow> (error + int) \<times> NavigationSensor" where
  "distanceFrontRight s = (let s1 = setMode RANGE s in (getNumber UInt16LE 2 s1, s1))"

definition distanceRear :: "NavigationSensor \<Rightarrow> (error + int) \<times> NavigationSensor" where
  "distanceRear s = (let s1 = setMode RANGE s in (getNumber UInt16LE 8 s1, s1))"

definition distanceLeftSide :: "NavigationSensor \<Rightarrow> (error + int) \<times> NavigationSensor" where
  "distanceLeftSide s = (let s1 = setMode RANGE s in (getNumber UInt16LE 4 s1, s1))"

definition distanceRightSide :: "NavigationSensor \<Rightarrow> (error + int) \<times> NavigationSensor" where
  "distanceRightSide s = (let s1 = setMode RANGE s in (getNumber UInt16LE 6 s1, s1))"

definition heading_main :: "NavigationSensor \<Rightarrow> (error + int) \<times> NavigationSensor" where
  "heading_main s = (let s1 = setMode HEADING s in (getNumber Int16LE 0 s1, s1))"

definition pitch :: "NavigationSensor \<Rightarrow> (error + int) \<times> NavigationSensor" where
  "pitch s = (let s1 = setMode HEADING s in (getNumber Int16LE 2 s1, s1))"

definition roll :: "NavigationSensor \<Rightarrow> (error + int) \<times> NavigationSensor" where
  "roll s = (let s1 = setMode HEADING s in (getNumber Int16LE 4 s1, s1))"

text \<open>
  \<open>setThreshold\<close>: a \<open>switch\<close> on the condition, which at run time is any number. A
  rejected threshold leaves the driver as it was.
\<close>

definition setThreshold_main :: "int \<Rightarrow> int \<Rightarrow> NavigationSensor \<Rightarrow> error + NavigationSensor" where
  "setThreshold_main condition v s =
     (if condition = NavigationSensorEvent_main_code ObjectNear_main
      then (case setLowThreshold v (promixityThreshold s) of
              Inl e \<Rightarrow> Inl e
            | Inr d \<Rightarrow> Inr (s\<lparr>promixityThreshold := d\<rparr>))
      else if condition = NavigationSensorEvent_main_code ObjectDetected_main
      then Inr (s\<lparr>movementThreshold := v\<rparr>)
      else Inr s)"

definition threshold_main :: "int \<Rightarrow> NavigationSensor \<Rightarrow> int" where
  "threshold_main condition s =
     (if condition = NavigationSensorEvent_main_code ObjectNear_main
      then threshold Low (promixityThreshold s)
      else if condition = NavigationSensorEvent_main_code ObjectDetected_main
      then movementThreshold s
      else 0)"

subsection \<open>The dual-lidar driver (\<open>navigation-sensor.ts\<close>, first class)\<close>

definition NavigationSensor_dual :: "int \<Rightarrow> (int \<Rightarrow> byte list) \<Rightarrow> NavigationSensor" where
  "NavigationSensor_dual ident dev =
     setMode NAV1 (UartSensor_new ident dev (ThresholdDetector_new ident 0 2500 100 1500) 1)"

definition query_dual :: "NavigationSensor \<Rightarrow> (error + int) \<times> NavigationSensor" where
  "query_dual s = (getNumber UInt16LE 0 s, s)"

definition distanceLeft :: "NavigationSensor \<Rightarrow> (error + int) \<times> NavigationSensor" where
  "distanceLeft s = (let s1 = setMode NAV1 s in (getNumber UInt16LE 0 s1, s1))"

definition distanceRight :: "NavigationSensor \<Rightarrow> (error + int) \<times> NavigationSensor" where
  "distanceRight s = (let s1 = setMode NAV1 s in (getNumber UInt16LE 2 s1, s1))"

definition heading_dual :: "NavigationSensor \<Rightarrow> (error + int) \<times> NavigationSensor" where
  "heading_dual s = (let s1 = setMode NAV1 s in (getNumber UInt16LE 4 s1, s1))"

text \<open>
  \<open>_update\<close> of the dual-lidar driver. A read that fails ends the call there, with the
  effects made so far.
\<close>

definition update_dual :: "int \<Rightarrow> int \<Rightarrow> NavigationSensor \<Rightarrow> (error + unit) \<times> NavigationSensor" where
  "update_dual prev cur s =
     (let s1 = promixity_setLevel cur s;
          s2 = (if \<bar>prev - cur\<bar> > movementThreshold s1
                then raiseEvent (sensor_id s1) (NavigationSensorEvent_code ObjectDetected) s1
                else s1)
      in case distanceRight s2 of
           (Inl e, s3) \<Rightarrow> (Inl e, s3)
         | (Inr r, s3) \<Rightarrow>
             (let s4 = (if r < lowThreshold (promixityThreshold s3)
                        then raiseEvent (sensor_id s3) (NavigationSensorEvent_code ObjectNearRight) s3
                        else s3)
              in case distanceLeft s4 of
                   (Inl e, s5) \<Rightarrow> (Inl e, s5)
                 | (Inr l, s5) \<Rightarrow>
                     (Inr (),
                      if l < lowThreshold (promixityThreshold s5)
                      then raiseEvent (sensor_id s5) (NavigationSensorEvent_code ObjectNearLeft) s5
                      else s5)))"

text \<open>\<open>setThreshold\<close> and \<open>getProximityThreshold\<close>: an \<open>if\<close> with an \<open>else\<close> branch.\<close>

definition setThreshold_dual :: "int \<Rightarrow> int \<Rightarrow> NavigationSensor \<Rightarrow> error + NavigationSensor" where
  "setThreshold_dual condition v s =
     (if condition = NavigationSensorEvent_code ObjectDetected
      then Inr (s\<lparr>movementThreshold := v\<rparr>)
      else (case setLowThreshold v (promixityThreshold s) of
              Inl e \<Rightarrow> Inl e
            | Inr d \<Rightarrow> Inr (s\<lparr>promixityThreshold := d\<rparr>)))"

definition getProximityThreshold :: "int \<Rightarrow> NavigationSensor \<Rightarrow> int" where
  "getProximityThreshold condition s =
     (if condition = NavigationSensorEvent_code ObjectDetected
      then movementThreshold s
      else threshold Low (promixityThreshold s))"

subsection \<open>The single-threshold driver (\<open>navigation-sensor.ts\<close>, second class)\<close>

text \<open>
  Its accessors \<open>distanceLeft\<close>, \<open>distanceRight\<close> and \<open>heading\<close> and its \<open>_query\<close> are
  the text of the dual-lidar ones; the methods below are its own.
\<close>

definition NavigationSensor_single :: "int \<Rightarrow> (int \<Rightarrow> byte list) \<Rightarrow> NavigationSensor" where
  "NavigationSensor_single ident dev =
     setMode NAV1 (UartSensor_new ident dev (ThresholdDetector_new ident 0 255 10 100) 1)"

definition update_single :: "int \<Rightarrow> int \<Rightarrow> NavigationSensor \<Rightarrow> NavigationSensor" where
  "update_single prev cur s =
     (let s1 = promixity_setLevel cur s
      in if \<bar>prev - cur\<bar> > movementThreshold s1
         then raiseEvent (sensor_id s1) (NavigationSensorEvent_main_code ObjectDetected_main) s1
         else s1)"

definition setThreshold_single :: "int \<Rightarrow> int \<Rightarrow> NavigationSensor \<Rightarrow> error + NavigationSensor" where
  "setThreshold_single condition v s =
     (if condition = NavigationSensorEvent_main_code ObjectNear_main
      then (case setLowThreshold v (promixityThreshold s) of
              Inl e \<Rightarrow> Inl e
            | Inr d \<Rightarrow> Inr (s\<lparr>promixityThreshold := d\<rparr>))
      else if condition = NavigationSensorEvent_main_code ObjectDetected_main
      then Inr (s\<lparr>movementThreshold := v\<rparr>)
      else Inr s)"

definition threshold_single :: "int \<Rightarrow> NavigationSensor \<Rightarrow> int" where
  "threshold_single condition s =
     (if condition = NavigationSensorEvent_main_code ObjectNear_main
      then threshold Low (promixityThreshold s)
      else if condition = NavigationSensorEvent_main_code ObjectDetected_main
      then movementThreshold s
      else 0)"

subsection \<open>Observing a run\<close>

text \<open>The effects a call has added, given the state before it and the state after it.\<close>

definition emitted :: "NavigationSensor \<Rightarrow> NavigationSensor \<Rightarrow> effect list" where
  "emitted s s' = drop (length (trace s)) (trace s')"

fun is_ModeSwitch :: "effect \<Rightarrow> bool" where
  "is_ModeSwitch (ModeSwitch m) = True"
| "is_ModeSwitch (RaiseEvent src code) = False"
| "is_ModeSwitch (LevelChange src st) = False"

text \<open>The number of mode-switch commands among some effects.\<close>

definition mode_switches :: "effect list \<Rightarrow> nat" where
  "mode_switches es = length (filter is_ModeSwitch es)"

text \<open>
  A sample device: in mode 0 its buffer holds the 16-bit fields 10, 2000 and 90, in mode 1
  the fields 65535, 5 and 7; in any other mode it is empty.
\<close>

definition sample_device :: "int \<Rightarrow> byte list" where
  "sample_device m =
     (if m = 0 then [0x0A, 0x00, 0xD0, 0x07, 0x5A, 0x00, 0x00, 0x00, 0x00, 0x00]
      else if m = 1 then [0xFF, 0xFF, 0x05, 0x00, 0x07, 0x00]
      else [])"

text \<open>A dual-lidar driver, freshly constructed on the sample device with source id 1.\<close>

definition sample_sensor :: NavigationSensor where
  "sample_sensor = NavigationSensor_dual 1 sample_device"

text \<open>A five-lidar driver, freshly constructed on the sample device with source id 1.\<close>

definition sample_sensor_main :: NavigationSensor where
  "sample_sensor_main = NavigationSensor_main 1 sample_device"

section \<open>Register codec\<close>

lemma le_value_bounds: "0 \<le> le_value bs \<and> le_value bs < 256 ^ length bs"
proof (induction bs)
  case Nil
  show ?case by simp
next
  case (Cons b bs)
  have b: "0 \<le> uint b" "uint b < 256"
    using uint_bounded [of b] by simp_all
  from Cons b show ?case by simp
qed

lemma decode_unsigned16_range:
  assumes "decode buffer offset 2 False = Inr v"
  shows "0 \<le> v \<and> v < 65536"
proof -
  from assms have len: "offset + 2 \<le> length buffer"
    and v: "v = le_value (take 2 (drop offset buffer))"
    by (auto simp: decode_def Let_def split: if_splits)
  have "length (take 2 (drop offset buffer)) = 2"
    using len by simp
  with le_value_bounds [of "take 2 (drop offset buffer)"] v show ?thesis
    by simp
qed

lemma decode_signed16_range:
  assumes "decode buffer offset 2 True = Inr v"
  shows "- 32768 \<le> v \<and> v < 32768"
proof -
  from assms have len: "offset + 2 \<le> length buffer"
    and v: "v = (let u = le_value (take 2 (drop offset buffer))
                 in if 32768 \<le> u then u - 65536 else u)"
    by (auto simp: decode_def Let_def split: if_splits)
  have "length (take 2 (drop offset buffer)) = 2"
    using len by simp
  with le_value_bounds [of "take 2 (drop offset buffer)"] v show ?thesis
    by (auto simp: Let_def)
qed

text \<open>
  C8. Decoded as unsigned, width 2, the buffer \<open>[0x64, 0x00, 0x2C, 0x01]\<close> gives 100 at
  offset 0 and 300 at offset 2; whenever \<open>offset + width\<close> exceeds the length of the
  buffer, decoding fails with \<open>OutOfRange\<close>.
\<close>

theorem decode_example:
  "decode [0x64, 0x00, 0x2C, 0x01] 0 2 False = Inr 100
   \<and> decode [0x64, 0x00, 0x2C, 0x01] 2 2 False = Inr 300
   \<and> (length buffer < offset + width \<longrightarrow> decode buffer offset width sg = Inl OutOfRange)"
  by (simp add: decode_def)

theorem decode_example_witness:
  "length [1, 2 :: byte] < 1 + 2 \<and> decode [1, 2] 1 2 True = Inl OutOfRange"
  using decode_example [of "[1, 2]" 1 2 True] by simp

section \<open>Threshold detector\<close>

text \<open>
  C4. The detector built by the dual-lidar constructor has \<open>lowThreshold = 100\<close> and
  \<open>highThreshold = 1500\<close> and starts in Normal. With these thresholds, \<open>setLevel\<close> of 99
  and of 100 gives Low, of 101 and of 1499 gives Normal, and of 1500 gives High. In
  general, for \<open>lowThreshold < highThreshold\<close>, a value at most \<open>lowThreshold\<close> gives Low,
  a value at least \<open>highThreshold\<close> gives High, and a value strictly between them gives
  Normal.
\<close>

theorem setLevel_boundaries:
  "lowThreshold (promixityThreshold (NavigationSensor_dual ident dev)) = 100
   \<and> highThreshold (promixityThreshold (NavigationSensor_dual ident dev)) = 1500
   \<and> level (promixityThreshold (NavigationSensor_dual ident dev)) = Normal
   \<and> (lowThreshold d = 100 \<and> highThreshold d = 1500 \<longrightarrow>
        level (fst (setLevel 99 d)) = Low \<and> level (fst (setLevel 100 d)) = Low
        \<and> level (fst (setLevel 101 d)) = Normal \<and> level (fst (setLevel 1499 d)) = Normal
        \<and> level (fst (setLevel 1500 d)) = High)
   \<and> (lowThreshold d < highThreshold d \<longrightarrow>
        (v \<le> lowThreshold d \<longrightarrow> level (fst (setLevel v d)) = Low)
        \<and> (highThreshold d \<le> v \<longrightarrow> level (fst (setLevel v d)) = High)
        \<and> (lowThreshold d < v \<and> v < highThreshold d \<longrightarrow> level (fst (setLevel v d)) = Normal))"
  by (simp add: NavigationSensor_dual_def UartSensor_new_def ThresholdDetector_new_def
      setMode_def setLevel_def)

theorem setLevel_boundaries_witness:
  "level (fst (setLevel 99 (promixityThreshold (NavigationSensor_dual 1 sample_device)))) = Low
   \<and> level (fst (setLevel 100 (promixityThreshold (NavigationSensor_dual 1 sample_device)))) = Low
   \<and> level (fst (setLevel 101 (promixityThreshold (NavigationSensor_dual 1 sample_device)))) = Normal
   \<and> level (fst (setLevel 1499 (promixityThreshold (NavigationSensor_dual 1 sample_device)))) = Normal
   \<and> level (fst (setLevel 1500 (promixityThreshold (NavigationSensor_dual 1 sample_device)))) = High
   \<and> level (fst (setLevel 2000 (promixityThreshold (NavigationSensor_dual 1 sample_device)))) = High"
  using setLevel_boundaries
    [of 1 sample_device "promixityThreshold (NavigationSensor_dual 1 sample_device)" 2000]
  by simp

section \<open>Event codes\<close>

text \<open>
  C9. The event codes are \<open>ObjectDetected = 10\<close> and \<open>ObjectNear\<close> = the code of the
  detector's Low state, in every driver; \<open>ObjectNearLeft = 4\<close> and \<open>ObjectNearRight = 5\<close>
  exist in the dual-lidar driver only: the enum of the other drivers has the two codes
  10 and Low and neither 4 nor 5.
\<close>

theorem event_codes:
  "NavigationSensorEvent_code ObjectDetected = 10
   \<and> NavigationSensorEvent_code ObjectNear = ThresholdState_code Low
   \<and> NavigationSensorEvent_code ObjectNearLeft = 4
   \<and> NavigationSensorEvent_code ObjectNearRight = 5
   \<and> NavigationSensorEvent_main_code ObjectDetected_main = 10
   \<and> NavigationSensorEvent_main_code ObjectNear_main = ThresholdState_code Low
   \<and> range NavigationSensorEvent_main_code = {10, ThresholdState_code Low}
   \<and> 4 \<notin> range NavigationSensorEvent_main_code
   \<and> 5 \<notin> range NavigationSensorEvent_main_code"
proof -
  have "range NavigationSensorEvent_main_code = {10, ThresholdState_code Low}"
  proof
    show "range NavigationSensorEvent_main_code \<subseteq> {10, ThresholdState_code Low}"
    proof
      fix x assume "x \<in> range NavigationSensorEvent_main_code"
      then obtain e where "x = NavigationSensorEvent_main_code e" by blast
      then show "x \<in> {10, ThresholdState_code Low}" by (cases e) simp_all
    qed
    have "NavigationSensorEvent_main_code ObjectDetected_main \<in> range NavigationSensorEvent_main_code"
      "NavigationSensorEvent_main_code ObjectNear_main \<in> range NavigationSensorEvent_main_code"
      by blast+
    then show "{10, ThresholdState_code Low} \<subseteq> range NavigationSensorEvent_main_code"
      by simp
  qed
  then show ?thesis by simp
qed

section \<open>Mode selector\<close>

lemma setMode_currentMode: "currentMode (setMode m s) = m"
  by (simp add: setMode_def)

lemma setMode_trace:
  "trace (setMode m s) = trace s @ (if m = currentMode s then [] else [ModeSwitch m])"
  by (simp add: setMode_def)

lemma setMode_emitted:
  "emitted s (setMode m s) = (if m = currentMode s then [] else [ModeSwitch m])"
  by (simp add: emitted_def setMode_trace)

lemma emitted_same: "emitted s s = []"
  by (simp add: emitted_def)

lemma setMode_same: "currentMode s = m \<Longrightarrow> setMode m s = s"
  by (simp add: setMode_def)

lemma setMode_fields:
  "device (setMode m s) = device s"
  "promixityThreshold (setMode m s) = promixityThreshold s"
  "movementThreshold (setMode m s) = movementThreshold s"
  "sensor_id (setMode m s) = sensor_id s"
  by (simp_all add: setMode_def)

text \<open>
  C5, as stated, fails: the freshly constructed dual-lidar driver has
  \<open>currentMode = NAV1\<close>, and two successive calls of \<open>setMode NAV1\<close> from there issue no
  mode-switch command at all, not one.
\<close>

theorem setMode_twice_counterexample:
  "currentMode sample_sensor = NAV1
   \<and> mode_switches (emitted sample_sensor (setMode NAV1 (setMode NAV1 sample_sensor))) = 0
   \<and> mode_switches (emitted sample_sensor (setMode NAV1 (setMode NAV1 sample_sensor))) \<noteq> 1"
  by (simp add: sample_sensor_def NavigationSensor_dual_def UartSensor_new_def setMode_def
      emitted_def mode_switches_def NAV1_def None_mode_def)

text \<open>
  C5, amended. A call of \<open>setMode m\<close> issues a mode-switch command exactly when \<open>m\<close>
  differs from \<open>currentMode\<close>, leaves \<open>currentMode = m\<close>, and is idempotent. Starting
  from \<open>currentMode = NAV1\<close>, two successive calls with NAV1 issue no command, and a
  following call with NAV2 issues exactly one and makes NAV2 the current mode. Starting
  from any other mode (as the unset mode of a new sensor), the first call with NAV1
  issues exactly one command and the second none.
\<close>

theorem setMode_suppression:
  "emitted s (setMode m s) = (if m = currentMode s then [] else [ModeSwitch m])
   \<and> currentMode (setMode m s) = m
   \<and> setMode m (setMode m s) = setMode m s
   \<and> (currentMode s = NAV1 \<longrightarrow>
        mode_switches (emitted s (setMode NAV1 s)) = 0
        \<and> mode_switches (emitted (setMode NAV1 s) (setMode NAV1 (setMode NAV1 s))) = 0
        \<and> mode_switches (emitted (setMode NAV1 (setMode NAV1 s))
              (setMode NAV2 (setMode NAV1 (setMode NAV1 s)))) = 1
        \<and> currentMode (setMode NAV2 (setMode NAV1 (setMode NAV1 s))) = NAV2)
   \<and> (currentMode s \<noteq> NAV1 \<longrightarrow>
        mode_switches (emitted s (setMode NAV1 s)) = 1
        \<and> mode_switches (emitted (setMode NAV1 s) (setMode NAV1 (setMode NAV1 s))) = 0)"
  by (simp add: setMode_emitted setMode_currentMode setMode_same mode_switches_def
      emitted_same NAV1_def NAV2_def)

theorem setMode_suppression_witness:
  "currentMode sample_sensor = NAV1
   \<and> mode_switches (emitted sample_sensor (setMode NAV1 sample_sensor)) = 0
   \<and> mode_switches
        (emitted (setMode NAV1 sample_sensor) (setMode NAV1 (setMode NAV1 sample_sensor))) = 0
   \<and> mode_switches
        (emitted (setMode NAV1 (setMode NAV1 sample_sensor))
           (setMode NAV2 (setMode NAV1 (setMode NAV1 sample_sensor)))) = 1
   \<and> currentMode (setMode NAV2 (setMode NAV1 (setMode NAV1 sample_sensor))) = NAV2"
proof -
  have m: "currentMode sample_sensor = NAV1"
    by (simp add: sample_sensor_def NavigationSensor_dual_def setMode_currentMode)
  with setMode_suppression [of sample_sensor NAV1] show ?thesis by blast
qed

section \<open>Accessors\<close>

lemma getNumber_setMode:
  "getNumber fmt off (setMode m s) =
     decode (device s m) off (NumberFormat_width fmt) (NumberFormat_signed fmt)"
  by (simp add: getNumber_def setMode_currentMode setMode_fields)

text \<open>
  C7. Every range accessor first selects the range mode (RANGE in the five-lidar driver,
  NAV1 in the dual-lidar one), so that it reads the buffer of that mode whatever the mode
  was before, and decodes an unsigned 16-bit little-endian field at its own offset:
  front-left 0, front-right 2, left-side 4, right-side 6, rear 8; left 0, right 2. The
  value read is the low byte plus 256 times the high byte, in \<open>0..65535\<close>.
\<close>

theorem range_accessors:
  "distanceFrontLeft s = (decode (device s RANGE) 0 2 False, setMode RANGE s)
   \<and> distanceFrontRight s = (decode (device s RANGE) 2 2 False, setMode RANGE s)
   \<and> distanceLeftSide s = (decode (device s RANGE) 4 2 False, setMode RANGE s)
   \<and> distanceRightSide s = (decode (device s RANGE) 6 2 False, setMode RANGE s)
   \<and> distanceRear s = (decode (device s RANGE) 8 2 False, setMode RANGE s)
   \<and> distanceLeft s = (decode (device s NAV1) 0 2 False, setMode NAV1 s)
   \<and> distanceRight s = (decode (device s NAV1) 2 2 False, setMode NAV1 s)
   \<and> currentMode (setMode RANGE s) = RANGE
   \<and> currentMode (setMode NAV1 s) = NAV1
   \<and> (decode (device s m) off 2 False = Inr v \<longrightarrow> 0 \<le> v \<and> v < 65536)
   \<and> (off + 2 \<le> length (device s m) \<longrightarrow>
        decode (device s m) off 2 False
          = Inr (uint (device s m ! off) + 256 * uint (device s m ! (off + 1))))"
proof -
  have le: "decode (device s m) off 2 False
          = Inr (uint (device s m ! off) + 256 * uint (device s m ! (off + 1)))"
    if len: "off + 2 \<le> length (device s m)"
  proof -
    have "take 2 (drop off (device s m)) = [device s m ! off, device s m ! (off + 1)]"
      using len by (simp add: numeral_2_eq_2 take_Suc_conv_app_nth)
    then show ?thesis using len by (simp add: decode_def)
  qed
  show ?thesis
    using decode_unsigned16_range [of "device s m" off v] le
    by (simp add: distanceFrontLeft_def distanceFrontRight_def distanceLeftSide_def
        distanceRightSide_def distanceRear_def distanceLeft_def distanceRight_def
        getNumber_setMode setMode_currentMode)
qed

theorem range_accessors_witness:
  "decode (device sample_sensor NAV1) 2 2 False = Inr 2000
   \<and> (0::int) \<le> 2000 \<and> (2000::int) < 65536
   \<and> 2 + 2 \<le> length (device sample_sensor NAV1)
   \<and> fst (distanceRight sample_sensor) = Inr 2000"
proof -
  have d: "device sample_sensor NAV1
             = [0x0A, 0x00, 0xD0, 0x07, 0x5A, 0x00, 0x00, 0x00, 0x00, 0x00]"
    by (simp add: sample_sensor_def NavigationSensor_dual_def UartSensor_new_def setMode_fields
        sample_device_def NAV1_def)
  have v: "decode (device sample_sensor NAV1) 2 2 False = Inr 2000"
    by (simp add: d decode_def)
  from range_accessors [of sample_sensor NAV1 2 2000] v d show ?thesis
    by simp
qed

text \<open>The two sample drivers, field by field.\<close>

lemma sample_sensor_simps:
  "currentMode sample_sensor = NAV1" "device sample_sensor = sample_device"
  "sensor_id sample_sensor = 1" "movementThreshold sample_sensor = 1"
  "promixityThreshold sample_sensor = ThresholdDetector_new 1 0 2500 100 1500"
  by (simp_all add: sample_sensor_def NavigationSensor_dual_def UartSensor_new_def
      setMode_fields setMode_currentMode)

lemma sample_sensor_main_simps:
  "currentMode sample_sensor_main = HEADING" "device sample_sensor_main = sample_device"
  "sensor_id sample_sensor_main = 1" "movementThreshold sample_sensor_main = 1"
  "promixityThreshold sample_sensor_main = ThresholdDetector_new 1 0 255 10 100"
  by (simp_all add: sample_sensor_main_def NavigationSensor_main_def UartSensor_new_def
      setMode_fields setMode_currentMode)

text \<open>
  C3, as stated, fails. In the dual-lidar driver \<open>heading\<close> selects NAV1, not the
  heading mode NAV2, and decodes the field at offset 4, not the one at offset 0: on the
  sample device it returns 90 while offset 0 holds 10. And no accessor checks a range:
  on the sample device the five-lidar \<open>heading\<close> returns -1, outside \<open>[0,360)\<close>.
\<close>

theorem heading_counterexample:
  "fst (heading_dual sample_sensor) = Inr 90
   \<and> currentMode (snd (heading_dual sample_sensor)) = NAV1
   \<and> NAV1 \<noteq> NAV2
   \<and> decode (device sample_sensor NAV1) 0 2 False = Inr 10
   \<and> fst (heading_dual sample_sensor) \<noteq> decode (device sample_sensor NAV2) 0 2 False
   \<and> fst (heading_main sample_sensor_main) = Inr (- 1)
   \<and> \<not> (0 \<le> (- 1 :: int) \<and> (- 1 :: int) < 360)"
  by (simp add: heading_dual_def heading_main_def getNumber_setMode setMode_currentMode
      sample_sensor_simps sample_sensor_main_simps sample_device_def decode_def
      NAV1_def NAV2_def HEADING_def)

text \<open>
  C3, amended. In the five-lidar driver \<open>heading\<close>, \<open>pitch\<close> and \<open>roll\<close> select HEADING
  before reading and decode a signed 16-bit field at offsets 0, 2 and 4. In the dual-lidar
  and single-threshold drivers \<open>heading\<close> selects NAV1 and decodes an unsigned 16-bit
  field at offset 4, and there is no \<open>pitch\<close> or \<open>roll\<close>. The drivers return the field
  as the device sent it: a signed field lies in \<open>-32768..32767\<close>, an unsigned one in
  \<open>0..65535\<close>, and nothing narrower is enforced.
\<close>

theorem heading_pitch_roll:
  "heading_main s = (decode (device s HEADING) 0 2 True, setMode HEADING s)
   \<and> pitch s = (decode (device s HEADING) 2 2 True, setMode HEADING s)
   \<and> roll s = (decode (device s HEADING) 4 2 True, setMode HEADING s)
   \<and> currentMode (setMode HEADING s) = HEADING
   \<and> heading_dual s = (decode (device s NAV1) 4 2 False, setMode NAV1 s)
   \<and> currentMode (setMode NAV1 s) = NAV1
   \<and> (decode (device s m) off 2 True = Inr v \<longrightarrow> - 32768 \<le> v \<and> v < 32768)
   \<and> (decode (device s m) off 2 False = Inr v \<longrightarrow> 0 \<le> v \<and> v < 65536)"
  using decode_signed16_range [of "device s m" off v]
    decode_unsigned16_range [of "device s m" off v]
  by (simp add: heading_main_def pitch_def roll_def heading_dual_def getNumber_setMode
      setMode_currentMode)

theorem heading_pitch_roll_witness:
  "decode (device sample_sensor_main HEADING) 0 2 True = Inr (- 1)
   \<and> - 32768 \<le> (- 1 :: int) \<and> (- 1 :: int) < 32768
   \<and> fst (pitch sample_sensor_main) = Inr 5
   \<and> fst (roll sample_sensor_main) = Inr 7"
proof -
  have v: "decode (device sample_sensor_main HEADING) 0 2 True = Inr (- 1)"
    "decode (device sample_sensor_main HEADING) 2 2 True = Inr 5"
    "decode (device sample_sensor_main HEADING) 4 2 True = Inr 7"
    by (simp_all add: sample_sensor_main_simps sample_device_def HEADING_def decode_def)
  from heading_pitch_roll [of sample_sensor_main HEADING 0 "- 1"] v show ?thesis
    by simp
qed

section \<open>The poll-cycle read\<close>

text \<open>
  C10. \<open>_query\<close> decodes the 16-bit field at offset 0 of the buffer of the current mode
  (signed in the five-lidar driver, unsigned in the dual-lidar one); it issues no
  mode switch and returns the driver unchanged. The constructors leave HEADING and NAV1
  selected, and while that mode is current \<open>_query\<close> returns what \<open>heading\<close> and
  \<open>distanceLeft\<close> return; after a range accessor of the five-lidar driver it returns the
  field at offset 0 of the RANGE buffer instead.
\<close>

theorem query_frame:
  "query_main s = (decode (device s (currentMode s)) 0 2 True, s)
   \<and> query_dual s = (decode (device s (currentMode s)) 0 2 False, s)
   \<and> emitted s (snd (query_main s)) = [] \<and> emitted s (snd (query_dual s)) = []
   \<and> currentMode (NavigationSensor_main ident dev) = HEADING
   \<and> currentMode (NavigationSensor_dual ident dev) = NAV1
   \<and> (currentMode s = HEADING \<longrightarrow> fst (query_main s) = fst (heading_main s))
   \<and> (currentMode s = NAV1 \<longrightarrow> fst (query_dual s) = fst (distanceLeft s))
   \<and> fst (query_main (snd (distanceFrontLeft s))) = decode (device s RANGE) 0 2 True
   \<and> fst (query_dual (snd (heading_dual s))) = fst (distanceLeft s)"
  by (simp add: query_main_def query_dual_def emitted_same getNumber_def
      NavigationSensor_main_def NavigationSensor_dual_def setMode_currentMode setMode_fields
      heading_main_def distanceLeft_def distanceFrontLeft_def heading_dual_def setMode_same)

theorem query_frame_witness:
  "currentMode sample_sensor_main = HEADING
   \<and> fst (query_main sample_sensor_main) = fst (heading_main sample_sensor_main)
   \<and> fst (query_main sample_sensor_main) = Inr (- 1)
   \<and> fst (query_main (snd (distanceFrontLeft sample_sensor_main))) = Inr 10
   \<and> currentMode sample_sensor = NAV1
   \<and> fst (query_dual sample_sensor) = fst (distanceLeft sample_sensor)"
proof -
  have v: "decode (device sample_sensor_main HEADING) 0 2 True = Inr (- 1)"
     "decode (device sample_sensor_main RANGE) 0 2 True = Inr 10"
    by (simp_all add: sample_sensor_main_simps sample_device_def HEADING_def RANGE_def decode_def)
  note m = sample_sensor_main_simps(1) sample_sensor_simps(1)
  note qm = query_frame [of sample_sensor_main 1 sample_device]
  note qd = query_frame [of sample_sensor 1 sample_device]
  from qm m have a: "fst (query_main sample_sensor_main) = fst (heading_main sample_sensor_main)"
    by blast
  from qm have "query_main sample_sensor_main
      = (decode (device sample_sensor_main (currentMode sample_sensor_main)) 0 2 True,
         sample_sensor_main)"
    by blast
  then have b: "fst (query_main sample_sensor_main) = Inr (- 1)"
    by (simp add: m v)
  from qm have "fst (query_main (snd (distanceFrontLeft sample_sensor_main)))
      = decode (device sample_sensor_main RANGE) 0 2 True"
    by blast
  then have c: "fst (query_main (snd (distanceFrontLeft sample_sensor_main))) = Inr 10"
    by (simp add: v)
  from qd m have d: "fst (query_dual sample_sensor) = fst (distanceLeft sample_sensor)"
    by blast
  from m a b c d show ?thesis by blast
qed

section \<open>The update hook\<close>

lemma setLevel_fields:
  "lowThreshold (fst (setLevel v d)) = lowThreshold d"
  "highThreshold (fst (setLevel v d)) = highThreshold d"
  "id_d (fst (setLevel v d)) = id_d d"
  by (simp_all add: setLevel_def Let_def)

lemma promixity_setLevel_fields:
  "promixityThreshold (promixity_setLevel cur s) = fst (setLevel cur (promixityThreshold s))"
  "trace (promixity_setLevel cur s)
     = trace s @ level_signal (id_d (promixityThreshold s)) (snd (setLevel cur (promixityThreshold s)))"
  "movementThreshold (promixity_setLevel cur s) = movementThreshold s"
  "sensor_id (promixity_setLevel cur s) = sensor_id s"
  "currentMode (promixity_setLevel cur s) = currentMode s"
  "device (promixity_setLevel cur s) = device s"
  by (simp_all add: promixity_setLevel_def setLevel_def Let_def)

lemma raiseEvent_fields:
  "promixityThreshold (raiseEvent i c s) = promixityThreshold s"
  "trace (raiseEvent i c s) = trace s @ [RaiseEvent i c]"
  "movementThreshold (raiseEvent i c s) = movementThreshold s"
  "sensor_id (raiseEvent i c s) = sensor_id s"
  "currentMode (raiseEvent i c s) = currentMode s"
  "device (raiseEvent i c s) = device s"
  by (simp_all add: raiseEvent_def)

lemma emitted_append: "trace s' = trace s @ es \<Longrightarrow> emitted s s' = es"
  by (simp add: emitted_def)

lemma update_main_fields:
  "promixityThreshold (update_main prev cur s) = fst (setLevel cur (promixityThreshold s))"
  "trace (update_main prev cur s)
     = trace s @ level_signal (id_d (promixityThreshold s)) (snd (setLevel cur (promixityThreshold s)))
       @ (if \<bar>cur - prev\<bar> > movementThreshold s
          then [RaiseEvent (sensor_id s) (NavigationSensorEvent_main_code ObjectDetected_main)] else [])"
  "currentMode (update_main prev cur s) = currentMode s"
  "movementThreshold (update_main prev cur s) = movementThreshold s"
  by (simp_all add: update_main_def Let_def promixity_setLevel_fields raiseEvent_fields abs_minus_commute)

lemma update_single_fields:
  "promixityThreshold (update_single prev cur s) = fst (setLevel cur (promixityThreshold s))"
  "trace (update_single prev cur s)
     = trace s @ level_signal (id_d (promixityThreshold s)) (snd (setLevel cur (promixityThreshold s)))
       @ (if \<bar>cur - prev\<bar> > movementThreshold s
          then [RaiseEvent (sensor_id s) (NavigationSensorEvent_main_code ObjectDetected_main)] else [])"
  "currentMode (update_single prev cur s) = currentMode s"
  "movementThreshold (update_single prev cur s) = movementThreshold s"
  by (simp_all add: update_single_def Let_def promixity_setLevel_fields raiseEvent_fields abs_minus_commute)

lemma update_dual_ok:
  assumes r: "decode (device s NAV1) 2 2 False = Inr r"
    and l: "decode (device s NAV1) 0 2 False = Inr l"
  shows "fst (update_dual prev cur s) = Inr ()"
    and "promixityThreshold (snd (update_dual prev cur s)) = fst (setLevel cur (promixityThreshold s))"
    and "trace (snd (update_dual prev cur s))
     = trace s @ level_signal (id_d (promixityThreshold s)) (snd (setLevel cur (promixityThreshold s)))
       @ (if \<bar>cur - prev\<bar> > movementThreshold s
          then [RaiseEvent (sensor_id s) (NavigationSensorEvent_code ObjectDetected)] else [])
       @ (if currentMode s = NAV1 then [] else [ModeSwitch NAV1])
       @ (if r < lowThreshold (promixityThreshold s)
          then [RaiseEvent (sensor_id s) (NavigationSensorEvent_code ObjectNearRight)] else [])
       @ (if l < lowThreshold (promixityThreshold s)
          then [RaiseEvent (sensor_id s) (NavigationSensorEvent_code ObjectNearLeft)] else [])"
    and "currentMode (snd (update_dual prev cur s)) = NAV1"
    and "movementThreshold (snd (update_dual prev cur s)) = movementThreshold s"
  using r l
  by (simp_all add: update_dual_def Let_def distanceRight_def distanceLeft_def getNumber_setMode
      setMode_fields setMode_trace setMode_currentMode promixity_setLevel_fields raiseEvent_fields
      setLevel_fields abs_minus_commute)

lemma sample_sensor_reads:
  "decode (device sample_sensor NAV1) 2 2 False = Inr 2000"
  "decode (device sample_sensor NAV1) 0 2 False = Inr 10"
  by (simp_all add: sample_sensor_simps sample_device_def NAV1_def decode_def)

lemma level_signal_no_event: "RaiseEvent src c \<notin> set (level_signal i sig)"
  by (cases sig) simp_all

lemma update_dual_prefix:
  "\<exists>rest. trace (snd (update_dual prev cur s))
      = trace s @ level_signal (id_d (promixityThreshold s)) (snd (setLevel cur (promixityThreshold s)))
        @ (if \<bar>cur - prev\<bar> > movementThreshold s
           then [RaiseEvent (sensor_id s) (NavigationSensorEvent_code ObjectDetected)] else [])
        @ rest
      \<and> (\<forall>src. RaiseEvent src (NavigationSensorEvent_code ObjectDetected) \<notin> set rest)"
  by (simp add: update_dual_def Let_def distanceRight_def distanceLeft_def
      setMode_fields setMode_trace setMode_currentMode promixity_setLevel_fields raiseEvent_fields
      setLevel_fields abs_minus_commute split: sum.splits)

lemma emitted_dual_prefix:
  "\<exists>rest. emitted s (snd (update_dual prev cur s))
      = level_signal (id_d (promixityThreshold s)) (snd (setLevel cur (promixityThreshold s)))
        @ (if \<bar>cur - prev\<bar> > movementThreshold s
           then [RaiseEvent (sensor_id s) (NavigationSensorEvent_code ObjectDetected)] else [])
        @ rest
      \<and> (\<forall>src. RaiseEvent src (NavigationSensorEvent_code ObjectDetected) \<notin> set rest)"
proof -
  from update_dual_prefix [of prev cur s] obtain rest where
    t: "trace (snd (update_dual prev cur s))
      = trace s @ (level_signal (id_d (promixityThreshold s)) (snd (setLevel cur (promixityThreshold s)))
        @ (if \<bar>cur - prev\<bar> > movementThreshold s
           then [RaiseEvent (sensor_id s) (NavigationSensorEvent_code ObjectDetected)] else [])
        @ rest)"
    and r: "\<forall>src. RaiseEvent src (NavigationSensorEvent_code ObjectDetected) \<notin> set rest"
    by auto
  from emitted_append [OF t] r show ?thesis by blast
qed

text \<open>
  C1. In every driver \<open>_update(prev, curr)\<close> first feeds \<open>curr\<close> to the proximity
  detector with \<open>setLevel\<close> and then raises \<open>ObjectDetected\<close> exactly when
  \<open>|curr - prev| > movementThreshold\<close>; the five-lidar and single-threshold drivers do
  nothing more. The dual-lidar driver goes on, whenever its two reads succeed: it re-reads
  the right range (NAV1, offset 2) and raises \<open>ObjectNearRight\<close> exactly when that range
  is below the detector's low threshold, then re-reads the left range (NAV1, offset 0)
  and raises \<open>ObjectNearLeft\<close> exactly when that one is below it. The effects come in
  this order.
\<close>

theorem update_steps:
  "promixityThreshold (update_main prev cur s) = fst (setLevel cur (promixityThreshold s))
   \<and> emitted s (update_main prev cur s)
       = level_signal (id_d (promixityThreshold s)) (snd (setLevel cur (promixityThreshold s)))
         @ (if \<bar>cur - prev\<bar> > movementThreshold s
            then [RaiseEvent (sensor_id s) (NavigationSensorEvent_main_code ObjectDetected_main)]
            else [])
   \<and> promixityThreshold (update_single prev cur s) = fst (setLevel cur (promixityThreshold s))
   \<and> emitted s (update_single prev cur s)
       = level_signal (id_d (promixityThreshold s)) (snd (setLevel cur (promixityThreshold s)))
         @ (if \<bar>cur - prev\<bar> > movementThreshold s
            then [RaiseEvent (sensor_id s) (NavigationSensorEvent_main_code ObjectDetected_main)]
            else [])
   \<and> (decode (device s NAV1) 2 2 False = Inr r \<and> decode (device s NAV1) 0 2 False = Inr l \<longrightarrow>
        fst (update_dual prev cur s) = Inr ()
        \<and> promixityThreshold (snd (update_dual prev cur s))
            = fst (setLevel cur (promixityThreshold s))
        \<and> emitted s (snd (update_dual prev cur s))
            = level_signal (id_d (promixityThreshold s)) (snd (setLevel cur (promixityThreshold s)))
              @ (if \<bar>cur - prev\<bar> > movementThreshold s
                 then [RaiseEvent (sensor_id s) (NavigationSensorEvent_code ObjectDetected)]
                 else [])
              @ (if currentMode s = NAV1 then [] else [ModeSwitch NAV1])
              @ (if r < lowThreshold (promixityThreshold s)
                 then [RaiseEvent (sensor_id s) (NavigationSensorEvent_code ObjectNearRight)]
                 else [])
              @ (if l < lowThreshold (promixityThreshold s)
                 then [RaiseEvent (sensor_id s) (NavigationSensorEvent_code ObjectNearLeft)]
                 else []))"
proof -
  have dual: "emitted s (snd (update_dual prev cur s))
            = level_signal (id_d (promixityThreshold s)) (snd (setLevel cur (promixityThreshold s)))
              @ (if \<bar>cur - prev\<bar> > movementThreshold s
                 then [RaiseEvent (sensor_id s) (NavigationSensorEvent_code ObjectDetected)]
                 else [])
              @ (if currentMode s = NAV1 then [] else [ModeSwitch NAV1])
              @ (if r < lowThreshold (promixityThreshold s)
                 then [RaiseEvent (sensor_id s) (NavigationSensorEvent_code ObjectNearRight)]
                 else [])
              @ (if l < lowThreshold (promixityThreshold s)
                 then [RaiseEvent (sensor_id s) (NavigationSensorEvent_code ObjectNearLeft)]
                 else [])"
    if "decode (device s NAV1) 2 2 False = Inr r" "decode (device s NAV1) 0 2 False = Inr l"
    by (rule emitted_append) (rule update_dual_ok(3) [OF that])
  have main: "emitted s (update_main prev cur s)
       = level_signal (id_d (promixityThreshold s)) (snd (setLevel cur (promixityThreshold s)))
         @ (if \<bar>cur - prev\<bar> > movementThreshold s
            then [RaiseEvent (sensor_id s) (NavigationSensorEvent_main_code ObjectDetected_main)]
            else [])"
    by (rule emitted_append) (rule update_main_fields(2))
  have single: "emitted s (update_single prev cur s)
       = level_signal (id_d (promixityThreshold s)) (snd (setLevel cur (promixityThreshold s)))
         @ (if \<bar>cur - prev\<bar> > movementThreshold s
            then [RaiseEvent (sensor_id s) (NavigationSensorEvent_main_code ObjectDetected_main)]
            else [])"
    by (rule emitted_append) (rule update_single_fields(2))
  from dual main single update_dual_ok(1,2) [of s r l prev cur]
    update_main_fields(1) [of prev cur s] update_single_fields(1) [of prev cur s]
  show ?thesis by blast
qed

theorem update_steps_witness:
  "decode (device sample_sensor NAV1) 2 2 False = Inr 2000
   \<and> decode (device sample_sensor NAV1) 0 2 False = Inr 10
   \<and> fst (update_dual 10 12 sample_sensor) = Inr ()
   \<and> level (promixityThreshold (snd (update_dual 10 12 sample_sensor))) = Low
   \<and> emitted sample_sensor (snd (update_dual 10 12 sample_sensor))
       = [LevelChange 1 Low, RaiseEvent 1 10, RaiseEvent 1 4]"
proof -
  note u = update_steps [of 10 12 sample_sensor 2000 10]
  from u sample_sensor_reads
  have "fst (update_dual 10 12 sample_sensor) = Inr ()"
    and p: "promixityThreshold (snd (update_dual 10 12 sample_sensor))
            = fst (setLevel 12 (promixityThreshold sample_sensor))"
    and e: "emitted sample_sensor (snd (update_dual 10 12 sample_sensor))
            = level_signal (id_d (promixityThreshold sample_sensor)) (snd (setLevel 12 (promixityThreshold sample_sensor)))
              @ (if \<bar>12 - 10\<bar> > movementThreshold sample_sensor
                 then [RaiseEvent (sensor_id sample_sensor) (NavigationSensorEvent_code ObjectDetected)]
                 else [])
              @ (if currentMode sample_sensor = NAV1 then [] else [ModeSwitch NAV1])
              @ (if 2000 < lowThreshold (promixityThreshold sample_sensor)
                 then [RaiseEvent (sensor_id sample_sensor) (NavigationSensorEvent_code ObjectNearRight)]
                 else [])
              @ (if 10 < lowThreshold (promixityThreshold sample_sensor)
                 then [RaiseEvent (sensor_id sample_sensor) (NavigationSensorEvent_code ObjectNearLeft)]
                 else [])"
    by blast+
  moreover from p have "level (promixityThreshold (snd (update_dual 10 12 sample_sensor))) = Low"
    by (simp add: sample_sensor_simps ThresholdDetector_new_def setLevel_def)
  moreover from e have "emitted sample_sensor (snd (update_dual 10 12 sample_sensor))
       = [LevelChange 1 Low, RaiseEvent 1 10, RaiseEvent 1 4]"
    by (simp add: sample_sensor_simps ThresholdDetector_new_def setLevel_def)
  ultimately show ?thesis using sample_sensor_reads by blast
qed

text \<open>
  C6, as stated, fails. The fresh dual-lidar driver has \<open>movementThreshold = 1\<close>; on the
  sample device, whose left range is 10 mm, \<open>_update(10, 10)\<close> signals the level change
  to Low and raises \<open>ObjectNearLeft\<close>.
\<close>

theorem update_quiet_counterexample:
  "movementThreshold sample_sensor = 1
   \<and> emitted sample_sensor (snd (update_dual 10 10 sample_sensor))
       = [LevelChange 1 Low, RaiseEvent 1 (NavigationSensorEvent_code ObjectNearLeft)]
   \<and> emitted sample_sensor (snd (update_dual 10 10 sample_sensor)) \<noteq> []"
proof -
  have "emitted sample_sensor (snd (update_dual 10 10 sample_sensor))
       = [LevelChange 1 Low, RaiseEvent 1 (NavigationSensorEvent_code ObjectNearLeft)]"
    by (rule emitted_append)
      (simp add: update_dual_ok(3) [OF sample_sensor_reads] sample_sensor_simps
        ThresholdDetector_new_def setLevel_def)
  then show ?thesis by (simp add: sample_sensor_simps)
qed

text \<open>
  C6, amended. With \<open>movementThreshold = 1\<close>, \<open>_update(10, 12)\<close> raises
  \<open>ObjectDetected\<close> in every driver, and \<open>_update(10, 10)\<close> raises no \<open>ObjectDetected\<close> in
  any. In the five-lidar and single-threshold drivers \<open>_update(10, 10)\<close> emits nothing
  but the detector's level-change signal, if the level changed; in the dual-lidar driver
  it emits that signal, the mode switch of the re-read if NAV1 was not selected, and
  \<open>ObjectNearRight\<close> and \<open>ObjectNearLeft\<close> for each re-read range below the low threshold.
\<close>

theorem movement_detection:
  "movementThreshold s = 1 \<longrightarrow>
     RaiseEvent (sensor_id s) (NavigationSensorEvent_main_code ObjectDetected_main)
       \<in> set (emitted s (update_main 10 12 s))
     \<and> RaiseEvent (sensor_id s) (NavigationSensorEvent_main_code ObjectDetected_main)
       \<in> set (emitted s (update_single 10 12 s))
     \<and> RaiseEvent (sensor_id s) (NavigationSensorEvent_code ObjectDetected)
       \<in> set (emitted s (snd (update_dual 10 12 s)))
     \<and> emitted s (update_main 10 10 s)
       = level_signal (id_d (promixityThreshold s)) (snd (setLevel 10 (promixityThreshold s)))
     \<and> emitted s (update_single 10 10 s)
       = level_signal (id_d (promixityThreshold s)) (snd (setLevel 10 (promixityThreshold s)))
     \<and> RaiseEvent src (NavigationSensorEvent_code ObjectDetected)
       \<notin> set (emitted s (snd (update_dual 10 10 s)))
     \<and> (decode (device s NAV1) 2 2 False = Inr r \<and> decode (device s NAV1) 0 2 False = Inr l \<longrightarrow>
          emitted s (snd (update_dual 10 10 s))
            = level_signal (id_d (promixityThreshold s)) (snd (setLevel 10 (promixityThreshold s)))
              @ (if currentMode s = NAV1 then [] else [ModeSwitch NAV1])
              @ (if r < lowThreshold (promixityThreshold s)
                 then [RaiseEvent (sensor_id s) (NavigationSensorEvent_code ObjectNearRight)]
                 else [])
              @ (if l < lowThreshold (promixityThreshold s)
                 then [RaiseEvent (sensor_id s) (NavigationSensorEvent_code ObjectNearLeft)]
                 else []))"
proof
  assume mt: "movementThreshold s = 1"
  have m12: "RaiseEvent (sensor_id s) (NavigationSensorEvent_main_code ObjectDetected_main)
       \<in> set (emitted s (update_main 10 12 s))"
    using mt by (simp add: emitted_append [OF update_main_fields(2)])
  have s12: "RaiseEvent (sensor_id s) (NavigationSensorEvent_main_code ObjectDetected_main)
       \<in> set (emitted s (update_single 10 12 s))"
    using mt by (simp add: emitted_append [OF update_single_fields(2)])
  have d12: "RaiseEvent (sensor_id s) (NavigationSensorEvent_code ObjectDetected)
       \<in> set (emitted s (snd (update_dual 10 12 s)))"
    using emitted_dual_prefix [of s 10 12] mt by auto
  have m10: "emitted s (update_main 10 10 s)
       = level_signal (id_d (promixityThreshold s)) (snd (setLevel 10 (promixityThreshold s)))"
    using mt by (simp add: emitted_append [OF update_main_fields(2)])
  have s10: "emitted s (update_single 10 10 s)
       = level_signal (id_d (promixityThreshold s)) (snd (setLevel 10 (promixityThreshold s)))"
    using mt by (simp add: emitted_append [OF update_single_fields(2)])
  have d10: "RaiseEvent src (NavigationSensorEvent_code ObjectDetected)
       \<notin> set (emitted s (snd (update_dual 10 10 s)))"
    using emitted_dual_prefix [of s 10 10] mt level_signal_no_event by auto
  have d10': "emitted s (snd (update_dual 10 10 s))
            = level_signal (id_d (promixityThreshold s)) (snd (setLevel 10 (promixityThreshold s)))
              @ (if currentMode s = NAV1 then [] else [ModeSwitch NAV1])
              @ (if r < lowThreshold (promixityThreshold s)
                 then [RaiseEvent (sensor_id s) (NavigationSensorEvent_code ObjectNearRight)]
                 else [])
              @ (if l < lowThreshold (promixityThreshold s)
                 then [RaiseEvent (sensor_id s) (NavigationSensorEvent_code ObjectNearLeft)]
                 else [])"
    if "decode (device s NAV1) 2 2 False = Inr r" "decode (device s NAV1) 0 2 False = Inr l"
    using mt by (simp add: emitted_append [OF update_dual_ok(3) [OF that]])
  from m12 s12 d12 m10 s10 d10 d10' show "RaiseEvent (sensor_id s) (NavigationSensorEvent_main_code ObjectDetected_main)
       \<in> set (emitted s (update_main 10 12 s))
     \<and> RaiseEvent (sensor_id s) (NavigationSensorEvent_main_code ObjectDetected_main)
       \<in> set (emitted s (update_single 10 12 s))
     \<and> RaiseEvent (sensor_id s) (NavigationSensorEvent_code ObjectDetected)
       \<in> set (emitted s (snd (update_dual 10 12 s)))
     \<and> emitted s (update_main 10 10 s)
       = level_signal (id_d (promixityThreshold s)) (snd (setLevel 10 (promixityThreshold s)))
     \<and> emitted s (update_single 10 10 s)
       = level_signal (id_d (promixityThreshold s)) (snd (setLevel 10 (promixityThreshold s)))
     \<and> RaiseEvent src (NavigationSensorEvent_code ObjectDetected)
       \<notin> set (emitted s (snd (update_dual 10 10 s)))
     \<and> (decode (device s NAV1) 2 2 False = Inr r \<and> decode (device s NAV1) 0 2 False = Inr l \<longrightarrow>
          emitted s (snd (update_dual 10 10 s))
            = level_signal (id_d (promixityThreshold s)) (snd (setLevel 10 (promixityThreshold s)))
              @ (if currentMode s = NAV1 then [] else [ModeSwitch NAV1])
              @ (if r < lowThreshold (promixityThreshold s)
                 then [RaiseEvent (sensor_id s) (NavigationSensorEvent_code ObjectNearRight)]
                 else [])
              @ (if l < lowThreshold (promixityThreshold s)
                 then [RaiseEvent (sensor_id s) (NavigationSensorEvent_code ObjectNearLeft)]
                 else []))"
    by blast
qed

theorem movement_detection_witness:
  "movementThreshold sample_sensor_main = 1
   \<and> RaiseEvent 1 10 \<in> set (emitted sample_sensor_main (update_main 10 12 sample_sensor_main))
   \<and> emitted sample_sensor_main (update_main 10 10 sample_sensor_main) = [LevelChange 1 Low]
   \<and> movementThreshold sample_sensor = 1
   \<and> RaiseEvent 1 10 \<in> set (emitted sample_sensor (snd (update_dual 10 12 sample_sensor)))
   \<and> RaiseEvent 1 10 \<notin> set (emitted sample_sensor (snd (update_dual 10 10 sample_sensor)))"
proof -
  note m = movement_detection [of sample_sensor_main 1 2000 10]
  note d = movement_detection [of sample_sensor 1 2000 10]
  have mt: "movementThreshold sample_sensor_main = 1" "movementThreshold sample_sensor = 1"
    by (simp_all add: sample_sensor_main_simps sample_sensor_simps)
  from m mt have a: "RaiseEvent (sensor_id sample_sensor_main)
      (NavigationSensorEvent_main_code ObjectDetected_main)
       \<in> set (emitted sample_sensor_main (update_main 10 12 sample_sensor_main))"
    and b: "emitted sample_sensor_main (update_main 10 10 sample_sensor_main)
       = level_signal (id_d (promixityThreshold sample_sensor_main))
           (snd (setLevel 10 (promixityThreshold sample_sensor_main)))"
    by blast+
  from d mt have c: "RaiseEvent (sensor_id sample_sensor) (NavigationSensorEvent_code ObjectDetected)
       \<in> set (emitted sample_sensor (snd (update_dual 10 12 sample_sensor)))"
    and e: "RaiseEvent 1 (NavigationSensorEvent_code ObjectDetected)
       \<notin> set (emitted sample_sensor (snd (update_dual 10 10 sample_sensor)))"
    by blast+
  from a have a': "RaiseEvent 1 10
      \<in> set (emitted sample_sensor_main (update_main 10 12 sample_sensor_main))"
    by (simp add: sample_sensor_main_simps)
  from b have b': "emitted sample_sensor_main (update_main 10 10 sample_sensor_main)
      = [LevelChange 1 Low]"
    by (simp add: sample_sensor_main_simps ThresholdDetector_new_def setLevel_def)
  from c have c': "RaiseEvent 1 10
      \<in> set (emitted sample_sensor (snd (update_dual 10 12 sample_sensor)))"
    by (simp add: sample_sensor_simps)
  from e have e': "RaiseEvent 1 10
      \<notin> set (emitted sample_sensor (snd (update_dual 10 10 sample_sensor)))"
    by simp
  from mt a' b' c' e' show ?thesis by blast
qed

section \<open>Thresholds\<close>

text \<open>
  C2, as stated, fails. In the dual-lidar driver the condition 7, which is no event code,
  is routed to the low threshold: \<open>setThreshold(7, 50)\<close> changes the detector, and
  \<open>getProximityThreshold(7)\<close> returns the low threshold 100, not 0.
\<close>

theorem setThreshold_dual_counterexample:
  "7 \<noteq> NavigationSensorEvent_code ObjectDetected
   \<and> 7 \<noteq> NavigationSensorEvent_code ObjectNear
   \<and> 7 \<noteq> NavigationSensorEvent_code ObjectNearLeft
   \<and> 7 \<noteq> NavigationSensorEvent_code ObjectNearRight
   \<and> setThreshold_dual 7 50 sample_sensor
        = Inr (sample_sensor\<lparr>promixityThreshold := ThresholdDetector_new 1 0 2500 50 1500\<rparr>)
   \<and> setThreshold_dual 7 50 sample_sensor \<noteq> Inr sample_sensor
   \<and> getProximityThreshold 7 sample_sensor = 100
   \<and> getProximityThreshold 7 sample_sensor \<noteq> 0"
proof -
  have "promixityThreshold (sample_sensor\<lparr>promixityThreshold := ThresholdDetector_new 1 0 2500 50 1500\<rparr>)
     \<noteq> promixityThreshold sample_sensor"
    by (simp add: sample_sensor_simps ThresholdDetector_new_def)
  then have "sample_sensor\<lparr>promixityThreshold := ThresholdDetector_new 1 0 2500 50 1500\<rparr> \<noteq> sample_sensor"
    by metis
  then show ?thesis
  by (simp add: setThreshold_dual_def getProximityThreshold_def setLowThreshold_def
      sample_sensor_simps ThresholdDetector_new_def)
qed

text \<open>
  C2, amended. In every driver \<open>ObjectDetected\<close> routes to \<open>movementThreshold\<close>, on set
  and on get. In the five-lidar and single-threshold drivers \<open>ObjectNear\<close> routes to the
  detector's low threshold, and any other condition leaves the driver unchanged on set
  and gives 0 on get. In the dual-lidar driver every condition other than
  \<open>ObjectDetected\<close> routes to the detector's low threshold, on set and on get. A low
  threshold that the detector accepts is the one read back.
\<close>

theorem setThreshold_routing:
  "(c = NavigationSensorEvent_code ObjectDetected \<longrightarrow>
      setThreshold_main c v s = Inr (s\<lparr>movementThreshold := v\<rparr>)
      \<and> setThreshold_single c v s = Inr (s\<lparr>movementThreshold := v\<rparr>)
      \<and> setThreshold_dual c v s = Inr (s\<lparr>movementThreshold := v\<rparr>)
      \<and> threshold_main c s = movementThreshold s
      \<and> threshold_single c s = movementThreshold s
      \<and> getProximityThreshold c s = movementThreshold s)
   \<and> (c = NavigationSensorEvent_code ObjectNear \<longrightarrow>
      setThreshold_main c v s
        = map_sum id (\<lambda>d. s\<lparr>promixityThreshold := d\<rparr>) (setLowThreshold v (promixityThreshold s))
      \<and> setThreshold_single c v s
        = map_sum id (\<lambda>d. s\<lparr>promixityThreshold := d\<rparr>) (setLowThreshold v (promixityThreshold s))
      \<and> threshold_main c s = lowThreshold (promixityThreshold s)
      \<and> threshold_single c s = lowThreshold (promixityThreshold s))
   \<and> (c \<noteq> NavigationSensorEvent_code ObjectDetected \<and> c \<noteq> NavigationSensorEvent_code ObjectNear \<longrightarrow>
      setThreshold_main c v s = Inr s \<and> setThreshold_single c v s = Inr s
      \<and> threshold_main c s = 0 \<and> threshold_single c s = 0)
   \<and> (c \<noteq> NavigationSensorEvent_code ObjectDetected \<longrightarrow>
      setThreshold_dual c v s
        = map_sum id (\<lambda>d. s\<lparr>promixityThreshold := d\<rparr>) (setLowThreshold v (promixityThreshold s))
      \<and> getProximityThreshold c s = lowThreshold (promixityThreshold s))
   \<and> (setLowThreshold v d = Inr d' \<longrightarrow> lowThreshold d' = v \<and> threshold Low d' = v)"
  by (auto simp: setThreshold_main_def setThreshold_single_def setThreshold_dual_def
      threshold_main_def threshold_single_def getProximityThreshold_def setLowThreshold_def
      split: sum.splits if_splits)

theorem setThreshold_routing_witness:
  "setThreshold_main 10 50 sample_sensor_main = Inr (sample_sensor_main\<lparr>movementThreshold := 50\<rparr>)
   \<and> threshold_main 10 sample_sensor_main = 1
   \<and> threshold_main 3 sample_sensor_main = 10
   \<and> setThreshold_main 7 50 sample_sensor_main = Inr sample_sensor_main
   \<and> threshold_main 7 sample_sensor_main = 0
   \<and> getProximityThreshold 7 sample_sensor = 100
   \<and> setLowThreshold 50 (ThresholdDetector_new 1 0 255 10 100)
        = Inr (ThresholdDetector_new 1 0 255 50 100)
   \<and> threshold Low (ThresholdDetector_new 1 0 255 50 100) = 50"
proof -
  have sl: "setLowThreshold 50 (ThresholdDetector_new 1 0 255 10 100)
        = Inr (ThresholdDetector_new 1 0 255 50 100)"
    by (simp add: setLowThreshold_def ThresholdDetector_new_def)
  from setThreshold_routing [of 10 50 sample_sensor_main]
  have a: "setThreshold_main 10 50 sample_sensor_main = Inr (sample_sensor_main\<lparr>movementThreshold := 50\<rparr>)"
    and b: "threshold_main 10 sample_sensor_main = 1"
    by (simp_all add: sample_sensor_main_simps)
  from setThreshold_routing [of 3 50 sample_sensor_main]
  have c: "threshold_main 3 sample_sensor_main = 10"
    by (simp add: sample_sensor_main_simps ThresholdDetector_new_def)
  from setThreshold_routing [of 7 50 sample_sensor_main]
  have d: "setThreshold_main 7 50 sample_sensor_main = Inr sample_sensor_main"
    and e: "threshold_main 7 sample_sensor_main = 0"
    by simp_all
  from setThreshold_routing [of 7 50 sample_sensor]
  have f: "getProximityThreshold 7 sample_sensor = 100"
    by (simp add: sample_sensor_simps ThresholdDetector_new_def)
  from setThreshold_routing [of _ 50 _ "ThresholdDetector_new 1 0 255 10 100" "ThresholdDetector_new 1 0 255 50 100"] sl
  have g: "threshold Low (ThresholdDetector_new 1 0 255 50 100) = 50"
    by blast
  from a b c d e f g sl show ?thesis by blast
qed

end
